theory Spec2Isabelle
  imports Complex_Main
begin

section \<open>Python values of the tracker\<close>

text \<open>
  The exceptions that the modelled functions can raise. A function that can raise returns
  \<open>error + 'a\<close>, with \<open>Inl\<close> for the exception.
\<close>

datatype error = TypeError | ZeroDivisionError | NotImplementedError | ConfigurationError

text \<open>
  A bounding box is the numpy array \<^verbatim>\<open>[x1, y1, x2, y2]\<close> of \<^verbatim>\<open>track.py\<close>: four
  numbers. Coordinates, distances and feature components are numpy or Python numbers;
  they are modelled as reals, Python's unbounded \<^verbatim>\<open>int\<close> counters as \<open>int\<close>.
  Arithmetic on arrays is componentwise.
\<close>

type_synonym bbox = "real \<times> real \<times> real \<times> real"

fun bbox_add :: "bbox \<Rightarrow> bbox \<Rightarrow> bbox" where
  "bbox_add (a1, a2, a3, a4) (b1, b2, b3, b4) = (a1 + b1, a2 + b2, a3 + b3, a4 + b4)"

fun bbox_sub :: "bbox \<Rightarrow> bbox \<Rightarrow> bbox" where
  "bbox_sub (a1, a2, a3, a4) (b1, b2, b3, b4) = (a1 - b1, a2 - b2, a3 - b3, a4 - b4)"

definition zero_bbox :: bbox where
  "zero_bbox = (0, 0, 0, 0)"

section \<open>The class Track (src/tracker/track.py)\<close>

record track =
  track_id :: string
  bbox :: bbox
  predicted_bbox :: bbox
  feature_vector :: "real list"
  age :: int
  history :: "bbox list"
  velocity :: bbox
  distance :: real
  label :: "string option"
  persistence :: int
  min_persistence :: int
  is_candidate :: bool
  private_is_detected :: bool

text \<open>\<^verbatim>\<open>Track.__init__(track_id, bbox, feature_vector, distance, label, is_candidate)\<close>\<close>

definition Track_init ::
  "string \<Rightarrow> bbox \<Rightarrow> real list \<Rightarrow> real \<Rightarrow> string option \<Rightarrow> bool \<Rightarrow> track" where
  "Track_init tid b fv d lbl cand =
     \<lparr> track_id = tid,
       bbox = b,
       predicted_bbox = b,
       feature_vector = fv,
       age = 0,
       history = [b],
       velocity = zero_bbox,
       distance = d,
       label = lbl,
       persistence = 0,
       min_persistence = 3,
       is_candidate = cand,
       private_is_detected = True \<rparr>"

text \<open>\<^verbatim>\<open>Track.predict\<close>: the box advanced by the velocity; it changes nothing.\<close>

definition predict :: "track \<Rightarrow> bbox" where
  "predict self = bbox_add (bbox self) (velocity self)"

text \<open>
  \<^verbatim>\<open>Track.update(bbox, feature_vector, distance)\<close>, one assignment of the source per
  line, in the source's order.
\<close>

definition update :: "track \<Rightarrow> bbox \<Rightarrow> real list \<Rightarrow> real \<Rightarrow> track" where
  "update self b fv d =
     (let s1 = self\<lparr>distance := d\<rparr>;
          s2 = s1\<lparr>velocity := bbox_sub b (bbox s1)\<rparr>;
          s3 = s2\<lparr>bbox := b\<rparr>;
          s4 = s3\<lparr>history := history s3 @ [b]\<rparr>;
          s5 = s4\<lparr>feature_vector := fv\<rparr>;
          s6 = s5\<lparr>age := 0\<rparr>
      in s6\<lparr>predicted_bbox := predict s6\<rparr>)"

definition change_track_id :: "track \<Rightarrow> string \<Rightarrow> track" where
  "change_track_id self new_track_id = self\<lparr>track_id := new_track_id\<rparr>"

definition increment_persistence :: "track \<Rightarrow> track" where
  "increment_persistence self = self\<lparr>persistence := persistence self + 1\<rparr>"

definition get_persistence :: "track \<Rightarrow> int" where
  "get_persistence self = persistence self"

text \<open>
  \<^verbatim>\<open>Track.increment_age\<close>: the age grows by one and \<^verbatim>\<open>bbox\<close> is replaced by the
  prediction. The source assigns nothing else, so \<^verbatim>\<open>predicted_bbox\<close> keeps its value.
\<close>

definition increment_age :: "track \<Rightarrow> track" where
  "increment_age self =
     (let s1 = self\<lparr>age := age self + 1\<rparr>
      in s1\<lparr>bbox := predict s1\<rparr>)"

definition set_is_detected :: "track \<Rightarrow> track" where
  "set_is_detected self = self\<lparr>private_is_detected := True\<rparr>"

definition unset_is_detected :: "track \<Rightarrow> track" where
  "unset_is_detected self = self\<lparr>private_is_detected := False\<rparr>"

definition is_detected :: "track \<Rightarrow> bool" where
  "is_detected self = private_is_detected self"

text \<open>
  The methods of a track that change it, as the operations a caller can apply to it one
  after the other.
\<close>

datatype track_op =
    Update bbox "real list" real
  | ChangeTrackId string
  | IncrementPersistence
  | IncrementAge
  | SetIsDetected
  | UnsetIsDetected

fun apply_op :: "track \<Rightarrow> track_op \<Rightarrow> track" where
  "apply_op t (Update b fv d) = update t b fv d"
| "apply_op t (ChangeTrackId n) = change_track_id t n"
| "apply_op t IncrementPersistence = increment_persistence t"
| "apply_op t IncrementAge = increment_age t"
| "apply_op t SetIsDetected = set_is_detected t"
| "apply_op t UnsetIsDetected = unset_is_detected t"

definition run_ops :: "track \<Rightarrow> track_op list \<Rightarrow> track" where
  "run_ops t ops = foldl apply_op t ops"

text \<open>
  \<^verbatim>\<open>Track.__eq__(other)\<close>. The other operand is any Python object: a track or
  something else. \<^verbatim>\<open>np.array_equal\<close> is true when both arrays have the same shape and
  the same elements.
\<close>

datatype py_object = TrackObject track | NoneObject | StrObject string | IntObject int

fun Track_eq :: "track \<Rightarrow> py_object \<Rightarrow> bool" where
  "Track_eq self (TrackObject other) =
     (track_id self = track_id other
      \<and> bbox self = bbox other
      \<and> feature_vector self = feature_vector other)"
| "Track_eq self _ = False"

text \<open>
  \<^verbatim>\<open>Track.iou(bbox)\<close>. The track's box is \<^verbatim>\<open>self.predicted_bbox\<close>. Python's \<^verbatim>\<open>/\<close>
  raises \<^verbatim>\<open>ZeroDivisionError\<close> on a zero divisor, which \<open>py_truediv\<close> keeps as a
  branch.
\<close>

definition py_truediv :: "real \<Rightarrow> real \<Rightarrow> error + real" where
  "py_truediv a b = (if b = 0 then Inl ZeroDivisionError else Inr (a / b))"

definition iou :: "track \<Rightarrow> bbox \<Rightarrow> error + real" where
  "iou self b =
     (case predicted_bbox self of (x1_t, y1_t, x2_t, y2_t) \<Rightarrow>
      case b of (x1_o, y1_o, x2_o, y2_o) \<Rightarrow>
        (let x1_inter = max x1_t x1_o;
             y1_inter = max y1_t y1_o;
             x2_inter = min x2_t x2_o;
             y2_inter = min y2_t y2_o;
             inter_area = max 0 (x2_inter - x1_inter) * max 0 (y2_inter - y1_inter);
             track_area = (x2_t - x1_t) * (y2_t - y1_t);
             other_area = (x2_o - x1_o) * (y2_o - y1_o);
             union_area = track_area + other_area - inter_area
         in if union_area > 0 then py_truediv inter_area union_area else Inr 0))"




text \<open>
  The \<^verbatim>\<open>Detection\<close> that \<^verbatim>\<open>get_detection\<close> builds (six keyword arguments), and the crop
  region: a dictionary from \<^verbatim>\<open>"x1_rel"\<close>, ... to numbers, or \<^verbatim>\<open>None\<close>. A dictionary is
  an association list; \<^verbatim>\<open>d.get(k, default)\<close> is \<open>dict_get\<close>. Python's \<^verbatim>\<open>int\<close> of a float
  truncates towards zero.
\<close>

record detection =
  x_min :: real
  y_min :: real
  x_max :: real
  y_max :: real
  confidence :: real
  class_name :: string

type_synonym crop_region = "(string \<times> real) list"





section \<open>The tracking configuration (src/config/config.py)\<close>

text \<open>
  The attributes of a \<^verbatim>\<open>ServiceConfig\<close> are a dictionary from field names to numbers,
  strings, booleans and nested dictionaries.
\<close>

datatype attr_value =
    NumberValue real
  | StringValue string
  | BoolValue bool
  | StructValue "(string \<times> attr_value) list"

type_synonym service_config = "(string \<times> attr_value) list"

text \<open>
  An attribute declaration as \<^verbatim>\<open>config.py\<close> writes it: the field's name and the keyword
  arguments \<^verbatim>\<open>min_value\<close>, \<^verbatim>\<open>max_value\<close>, \<^verbatim>\<open>default_value\<close> and \<^verbatim>\<open>allowlist\<close>, each
  \<open>None\<close> where the declaration leaves it out.
\<close>

record 'a attribute =
  field_name :: string
  min_value :: "'a option"
  max_value :: "'a option"
  default_value :: "'a option"
  allowlist :: "'a list option"

definition FloatAttribute ::
  "string \<Rightarrow> real option \<Rightarrow> real option \<Rightarrow> real option \<Rightarrow> real attribute" where
  "FloatAttribute name lo hi dflt =
     \<lparr> field_name = name, min_value = lo, max_value = hi, default_value = dflt,
       allowlist = None \<rparr>"

definition IntAttribute ::
  "string \<Rightarrow> int option \<Rightarrow> int option \<Rightarrow> int option \<Rightarrow> int attribute" where
  "IntAttribute name lo hi dflt =
     \<lparr> field_name = name, min_value = lo, max_value = hi, default_value = dflt,
       allowlist = None \<rparr>"

definition StringAttribute ::
  "string \<Rightarrow> string option \<Rightarrow> string list option \<Rightarrow> string attribute" where
  "StringAttribute name dflt allowed =
     \<lparr> field_name = name, min_value = None, max_value = None, default_value = dflt,
       allowlist = allowed \<rparr>"

definition BoolAttribute :: "string \<Rightarrow> bool option \<Rightarrow> bool attribute" where
  "BoolAttribute name dflt =
     \<lparr> field_name = name, min_value = None, max_value = None, default_value = dflt,
       allowlist = None \<rparr>"

record dict_attribute =
  dict_field_name :: string
  dict_default_value :: "crop_region option"
  dict_fields :: "real attribute list"

definition out_of_range :: "('a::linorder) attribute \<Rightarrow> 'a \<Rightarrow> bool" where
  "out_of_range a x =
     ((case min_value a of None \<Rightarrow> False | Some lo \<Rightarrow> x < lo)
      \<or> (case max_value a of None \<Rightarrow> False | Some hi \<Rightarrow> hi < x))"

text \<open>
  Modelled from the spec: the classes of \<^verbatim>\<open>src/config/attribute.py\<close> and their
  \<^verbatim>\<open>validate\<close> methods are missing from the sources. The spec names the failure
  (\<^verbatim>\<open>ConfigurationError\<close>: invalid parameter), lists the options with their admitted
  values (\<^verbatim>\<open>feature_distance_metric {cosine|euclidean}\<close>, crop coordinates in [0,1])
  and has defaults for options left out. So: a field that is absent yields the declared
  default; a field of the wrong kind, outside the declared bounds or outside the declared
  allowlist raises \<^verbatim>\<open>ConfigurationError\<close>; otherwise the field's value is the result.
\<close>

definition FloatAttribute_validate ::
  "real attribute \<Rightarrow> service_config \<Rightarrow> error + real option" where
  "FloatAttribute_validate a config =
     (case map_of config (field_name a) of
        None \<Rightarrow> Inr (default_value a)
      | Some (NumberValue x) \<Rightarrow>
          if out_of_range a x then Inl ConfigurationError else Inr (Some x)
      | Some _ \<Rightarrow> Inl ConfigurationError)"

text \<open>
  Modelled from the spec: \<^verbatim>\<open>IntAttribute.validate\<close> (missing, see above). The attributes
  of a service configuration hold numbers as floats; a number that is not whole is taken
  as an invalid parameter.
\<close>

definition IntAttribute_validate ::
  "int attribute \<Rightarrow> service_config \<Rightarrow> error + int option" where
  "IntAttribute_validate a config =
     (case map_of config (field_name a) of
        None \<Rightarrow> Inr (default_value a)
      | Some (NumberValue x) \<Rightarrow>
          if x \<noteq> real_of_int \<lfloor>x\<rfloor> \<or> out_of_range a \<lfloor>x\<rfloor> then Inl ConfigurationError
          else Inr (Some \<lfloor>x\<rfloor>)
      | Some _ \<Rightarrow> Inl ConfigurationError)"

text \<open>
  Modelled from the spec: \<^verbatim>\<open>StringAttribute.validate\<close> (missing, see above); a declared
  allowlist admits its members only.
\<close>

definition StringAttribute_validate ::
  "string attribute \<Rightarrow> service_config \<Rightarrow> error + string option" where
  "StringAttribute_validate a config =
     (case map_of config (field_name a) of
        None \<Rightarrow> Inr (default_value a)
      | Some (StringValue s) \<Rightarrow>
          (case allowlist a of
             None \<Rightarrow> Inr (Some s)
           | Some allowed \<Rightarrow>
               if s \<in> set allowed then Inr (Some s) else Inl ConfigurationError)
      | Some _ \<Rightarrow> Inl ConfigurationError)"

text \<open>Modelled from the spec: \<^verbatim>\<open>BoolAttribute.validate\<close> (missing, see above).\<close>

definition BoolAttribute_validate ::
  "bool attribute \<Rightarrow> service_config \<Rightarrow> error + bool option" where
  "BoolAttribute_validate a config =
     (case map_of config (field_name a) of
        None \<Rightarrow> Inr (default_value a)
      | Some (BoolValue b) \<Rightarrow> Inr (Some b)
      | Some _ \<Rightarrow> Inl ConfigurationError)"

text \<open>
  Modelled from the spec: \<^verbatim>\<open>DictAttribute.validate\<close> (missing, see above). Each declared
  field that the dictionary holds is validated as a float attribute; the result is the
  dictionary of the declared fields present.
\<close>

fun validate_fields :: "real attribute list \<Rightarrow> service_config \<Rightarrow> error + crop_region" where
  "validate_fields [] d = Inr []"
| "validate_fields (a # rest) d =
     (case FloatAttribute_validate a d of
        Inl e \<Rightarrow> Inl e
      | Inr v \<Rightarrow>
          (case validate_fields rest d of
             Inl e \<Rightarrow> Inl e
           | Inr vs \<Rightarrow> Inr (case v of None \<Rightarrow> vs | Some x \<Rightarrow> (field_name a, x) # vs)))"

definition DictAttribute_validate ::
  "dict_attribute \<Rightarrow> service_config \<Rightarrow> error + crop_region option" where
  "DictAttribute_validate a config =
     (case map_of config (dict_field_name a) of
        None \<Rightarrow> Inr (dict_default_value a)
      | Some (StructValue d) \<Rightarrow>
          (case validate_fields (dict_fields a) d of
             Inl e \<Rightarrow> Inl e
           | Inr vs \<Rightarrow> Inr (Some vs))
      | Some _ \<Rightarrow> Inl ConfigurationError)"

text \<open>
  An exception raised by one statement ends the constructor: \<open>and_then\<close> runs the rest
  only after a statement that returned.
\<close>

definition and_then :: "error + 'a \<Rightarrow> ('a \<Rightarrow> error + 'b) \<Rightarrow> error + 'b" where
  "and_then r f = (case r of Inl e \<Rightarrow> Inl e | Inr v \<Rightarrow> f v)"

text \<open>The attribute declarations of \<^verbatim>\<open>TrackingConfig.__init__\<close> that the claims name.\<close>

definition min_track_persistence_attribute :: "int attribute" where
  "min_track_persistence_attribute = IntAttribute ''min_track_persistence'' (Some 0) None (Some 4)"

definition feature_distance_metric_attribute :: "string attribute" where
  "feature_distance_metric_attribute =
     StringAttribute ''feature_distance_metric'' (Some ''cosine'')
       (Some [''cosine'', ''euclidean''])"

definition crop_region_attribute :: dict_attribute where
  "crop_region_attribute =
     \<lparr> dict_field_name = ''crop_region'',
       dict_default_value = None,
       dict_fields =
         [FloatAttribute ''x1_rel'' (Some 0) (Some 1) None,
          FloatAttribute ''y1_rel'' (Some 0) (Some 1) None,
          FloatAttribute ''x2_rel'' (Some 0) (Some 1) None,
          FloatAttribute ''y2_rel'' (Some 0) (Some 1) None] \<rparr>"

record tracking_config =
  re_id_threshold :: "real option"
  min_track_persistence :: "int option"
  lambda_value :: "real option"
  max_age_track :: "int option"
  min_distance_threshold :: "real option"
  feature_distance_metric :: "string option"
  max_frequency :: "real option"
  cooldown_period :: "real option"
  start_fresh :: "bool option"
  save_to_db :: "bool option"
  private_start_background_loop :: "bool option"
  path_to_known_persons :: "string option"
  crop_region :: "crop_region option"

text \<open>\<^verbatim>\<open>TrackingConfig.__init__(config)\<close>: thirteen validations, in the source's order.\<close>

definition TrackingConfig_init :: "service_config \<Rightarrow> error + tracking_config" where
  "TrackingConfig_init config =
     and_then (FloatAttribute_validate
                 (FloatAttribute ''re_id_threshold'' (Some 0) None (Some 0.3)) config) (\<lambda>v1.
     and_then (IntAttribute_validate min_track_persistence_attribute config) (\<lambda>v2.
     and_then (FloatAttribute_validate
                 (FloatAttribute ''lambda_value'' (Some 0) (Some 1) (Some 0.95)) config) (\<lambda>v3.
     and_then (IntAttribute_validate
                 (IntAttribute ''max_age_track'' (Some 0) (Some 100000) (Some 1000)) config) (\<lambda>v4.
     and_then (FloatAttribute_validate
                 (FloatAttribute ''min_distance_threshold'' (Some 0) (Some 1) (Some 0.3)) config) (\<lambda>v5.
     and_then (StringAttribute_validate feature_distance_metric_attribute config) (\<lambda>v6.
     and_then (FloatAttribute_validate
                 (FloatAttribute ''max_frequency_hz'' (Some 0.1) (Some 100) (Some 10)) config) (\<lambda>v7.
     and_then (FloatAttribute_validate
                 (FloatAttribute ''cooldown_period_s'' (Some 0) None (Some 5)) config) (\<lambda>v8.
     and_then (BoolAttribute_validate (BoolAttribute ''start_fresh'' (Some False)) config) (\<lambda>v9.
     and_then (BoolAttribute_validate (BoolAttribute ''save_to_db'' (Some True)) config) (\<lambda>v10.
     and_then (BoolAttribute_validate
                 (BoolAttribute ''_start_background_loop'' (Some True)) config) (\<lambda>v11.
     and_then (StringAttribute_validate
                 (StringAttribute ''path_to_known_persons'' None None) config) (\<lambda>v12.
     and_then (DictAttribute_validate crop_region_attribute config) (\<lambda>v13.
     Inr \<lparr> re_id_threshold = v1,
           min_track_persistence = v2,
           lambda_value = v3,
           max_age_track = v4,
           min_distance_threshold = v5,
           feature_distance_metric = v6,
           max_frequency = v7,
           cooldown_period = v8,
           start_fresh = v9,
           save_to_db = v10,
           private_start_background_loop = v11,
           path_to_known_persons = v12,
           crop_region = v13 \<rparr>)))))))))))))"

section \<open>The unsupported requests of the service (src/tracker_service.py)\<close>

text \<open>
  The methods are coroutines; the model gives what awaiting the call does: it either
  raises (\<open>Inl\<close>) or returns a value. \<^verbatim>\<open>return NotImplementedError\<close>
  returns the exception class itself as the value of the call: \<open>ExceptionClass\<close>. The
  images, point clouds and classifications of the Viam SDK are opaque here.
\<close>

datatype 'a returned = Result 'a | ExceptionClass error

typedecl viam_image
typedecl point_cloud_object
typedecl classification

definition get_object_point_clouds :: "string \<Rightarrow> error + point_cloud_object list returned" where
  "get_object_point_clouds camera_name = Inl NotImplementedError"

definition get_detections :: "viam_image \<Rightarrow> error + detection list returned" where
  "get_detections img = Inr (ExceptionClass NotImplementedError)"

definition get_classifications ::
  "viam_image \<Rightarrow> int \<Rightarrow> error + classification list returned" where
  "get_classifications img n = Inr (ExceptionClass NotImplementedError)"

definition get_classifications_from_camera ::
  "string \<Rightarrow> int \<Rightarrow> error + classification list returned" where
  "get_classifications_from_camera camera_name n = Inr (ExceptionClass NotImplementedError)"

section \<open>Vocabulary of the properties\<close>

text \<open>
  The area of a box as \<^verbatim>\<open>iou\<close> computes \<^verbatim>\<open>track_area\<close> and \<^verbatim>\<open>other_area\<close>, the
  intersection area as it computes \<^verbatim>\<open>inter_area\<close>, a box with ordered corners, and two
  boxes that do not overlap: one lies entirely to one side of the other.
\<close>

definition bbox_area :: "bbox \<Rightarrow> real" where
  "bbox_area b = (case b of (x1, y1, x2, y2) \<Rightarrow> (x2 - x1) * (y2 - y1))"

definition bbox_valid :: "bbox \<Rightarrow> bool" where
  "bbox_valid b = (case b of (x1, y1, x2, y2) \<Rightarrow> x1 \<le> x2 \<and> y1 \<le> y2)"

definition bbox_disjoint :: "bbox \<Rightarrow> bbox \<Rightarrow> bool" where
  "bbox_disjoint a b =
     (case a of (ax1, ay1, ax2, ay2) \<Rightarrow>
      case b of (bx1, by1, bx2, by2) \<Rightarrow>
        ax2 \<le> bx1 \<or> bx2 \<le> ax1 \<or> ay2 \<le> by1 \<or> by2 \<le> ay1)"

definition inter_area :: "bbox \<Rightarrow> bbox \<Rightarrow> real" where
  "inter_area a b =
     (case a of (ax1, ay1, ax2, ay2) \<Rightarrow>
      case b of (bx1, by1, bx2, by2) \<Rightarrow>
        max 0 (min ax2 bx2 - max ax1 bx1) * max 0 (min ay2 by2 - max ay1 by1))"

section \<open>The motion state of a track\<close>

text \<open>
  Creation and \<^verbatim>\<open>update\<close> leave the prediction one velocity step ahead of the box.
  \<^verbatim>\<open>increment_age\<close> moves the box onto the prediction and keeps the prediction.
\<close>

lemma Track_init_prediction:
  "predicted_bbox (Track_init tid b fv d lbl cand)
     = bbox_add (bbox (Track_init tid b fv d lbl cand)) (velocity (Track_init tid b fv d lbl cand))"
  by (cases b) (simp add: Track_init_def zero_bbox_def)

lemma update_prediction:
  "predicted_bbox (update t b fv d) = bbox_add (bbox (update t b fv d)) (velocity (update t b fv d))"
  by (simp add: update_def predict_def Let_def)

lemma increment_age_fields:
  "predicted_bbox (increment_age t) = predicted_bbox t"
  "bbox (increment_age t) = bbox_add (bbox t) (velocity t)"
  "velocity (increment_age t) = velocity t"
  "age (increment_age t) = age t + 1"
  "persistence (increment_age t) = persistence t"
  by (simp_all add: increment_age_def predict_def Let_def)

text \<open>
  Claim C1 says that after creation, \<^verbatim>\<open>update\<close> and \<^verbatim>\<open>increment_age\<close> alike the field
  \<^verbatim>\<open>predicted_bbox\<close> is \<^verbatim>\<open>bbox + velocity\<close>. After \<^verbatim>\<open>increment_age\<close> it is not: a track
  created at \<^verbatim>\<open>[-1,-1,9,9]\<close> and updated to \<^verbatim>\<open>[0,0,10,10]\<close> has velocity \<^verbatim>\<open>[1,1,1,1]\<close>
  and prediction \<^verbatim>\<open>[1,1,11,11]\<close>; one \<^verbatim>\<open>increment_age\<close> later its box is
  \<^verbatim>\<open>[1,1,11,11]\<close>, the prediction is still \<^verbatim>\<open>[1,1,11,11]\<close>, and \<^verbatim>\<open>bbox + velocity\<close> is
  \<^verbatim>\<open>[2,2,12,12]\<close>.
\<close>

theorem increment_age_stale_prediction:
  "predicted_bbox (increment_age (update (Track_init ''1'' (-1, -1, 9, 9) [] 0 None False) (0, 0, 10, 10) [] 0))
     = (1, 1, 11, 11)
   \<and> bbox (increment_age (update (Track_init ''1'' (-1, -1, 9, 9) [] 0 None False) (0, 0, 10, 10) [] 0))
     = (1, 1, 11, 11)
   \<and> velocity (increment_age (update (Track_init ''1'' (-1, -1, 9, 9) [] 0 None False) (0, 0, 10, 10) [] 0))
     = (1, 1, 1, 1)
   \<and> ((1, 1, 11, 11) :: bbox) \<noteq> (1 + 1, 1 + 1, 11 + 1, 11 + 1)"
  by (simp add: increment_age_def update_def predict_def Track_init_def zero_bbox_def Let_def)

text \<open>
  Claim C1 as amended: after creation and after every \<^verbatim>\<open>update\<close> the field
  \<^verbatim>\<open>predicted_bbox\<close> is \<^verbatim>\<open>bbox + velocity\<close>, coordinate by coordinate, and \<^verbatim>\<open>iou\<close>
  compares a detection with \<^verbatim>\<open>predicted_bbox\<close>, never with \<^verbatim>\<open>bbox\<close>.
  \<^verbatim>\<open>increment_age\<close> advances \<^verbatim>\<open>bbox\<close> to \<^verbatim>\<open>bbox + velocity\<close>, adds one to the age and
  leaves \<^verbatim>\<open>predicted_bbox\<close> and \<^verbatim>\<open>velocity\<close> as they are; so after a miss that follows
  a creation or an update, \<^verbatim>\<open>predicted_bbox\<close> is the advanced \<^verbatim>\<open>bbox\<close> itself.
\<close>

theorem prediction_after_operations:
  "bbox (Track_init tid (x1, y1, x2, y2) fv0 d0 lbl cand) = (x1, y1, x2, y2)
   \<and> velocity (Track_init tid (x1, y1, x2, y2) fv0 d0 lbl cand) = (0, 0, 0, 0)
   \<and> predicted_bbox (Track_init tid (x1, y1, x2, y2) fv0 d0 lbl cand) = (x1 + 0, y1 + 0, x2 + 0, y2 + 0)
   \<and> (bbox t = (a1, a2, a3, a4) \<longrightarrow>
        bbox (update t (b1, b2, b3, b4) fv d) = (b1, b2, b3, b4)
        \<and> velocity (update t (b1, b2, b3, b4) fv d) = (b1 - a1, b2 - a2, b3 - a3, b4 - a4)
        \<and> predicted_bbox (update t (b1, b2, b3, b4) fv d)
            = (b1 + (b1 - a1), b2 + (b2 - a2), b3 + (b3 - a3), b4 + (b4 - a4)))
   \<and> (bbox t = (a1, a2, a3, a4) \<and> velocity t = (v1, v2, v3, v4) \<longrightarrow>
        bbox (increment_age t) = (a1 + v1, a2 + v2, a3 + v3, a4 + v4)
        \<and> velocity (increment_age t) = (v1, v2, v3, v4)
        \<and> predicted_bbox (increment_age t) = predicted_bbox t
        \<and> age (increment_age t) = age t + 1)
   \<and> (bbox t = (a1, a2, a3, a4) \<and> velocity t = (v1, v2, v3, v4)
        \<and> predicted_bbox t = (a1 + v1, a2 + v2, a3 + v3, a4 + v4) \<longrightarrow>
        predicted_bbox (increment_age t) = bbox (increment_age t))
   \<and> iou (t\<lparr>bbox := c\<rparr>) det = iou t det"
  by (simp add: Track_init_def zero_bbox_def update_def increment_age_def predict_def
        iou_def Let_def)

text \<open>
  The scenario of the spec: box \<^verbatim>\<open>[0,0,10,10]\<close>, velocity \<^verbatim>\<open>[1,1,1,1]\<close>, one miss; then
  the prediction is \<^verbatim>\<open>[1,1,11,11]\<close>, the age is 1, and a detection at \<^verbatim>\<open>[1,1,11,11]\<close>
  has intersection over union 1 with the track.
\<close>

theorem prediction_after_operations_witness:
  "bbox (update (Track_init ''1'' (-1, -1, 9, 9) [] 0 None False) (0, 0, 10, 10) [] 0) = (0, 0, 10, 10)
   \<and> velocity (update (Track_init ''1'' (-1, -1, 9, 9) [] 0 None False) (0, 0, 10, 10) [] 0) = (1, 1, 1, 1)
   \<and> predicted_bbox (update (Track_init ''1'' (-1, -1, 9, 9) [] 0 None False) (0, 0, 10, 10) [] 0)
       = (1, 1, 11, 11)
   \<and> bbox (increment_age (update (Track_init ''1'' (-1, -1, 9, 9) [] 0 None False) (0, 0, 10, 10) [] 0))
       = (1, 1, 11, 11)
   \<and> predicted_bbox (increment_age (update (Track_init ''1'' (-1, -1, 9, 9) [] 0 None False) (0, 0, 10, 10) [] 0))
       = (1, 1, 11, 11)
   \<and> age (increment_age (update (Track_init ''1'' (-1, -1, 9, 9) [] 0 None False) (0, 0, 10, 10) [] 0)) = 1
   \<and> iou (increment_age (update (Track_init ''1'' (-1, -1, 9, 9) [] 0 None False) (0, 0, 10, 10) [] 0))
        (1, 1, 11, 11) = Inr 1"
proof -
  let ?c = "Track_init ''1'' (-1, -1, 9, 9) [] 0 None False"
  let ?t = "update ?c (0, 0, 10, 10) [] 0"
  have c: "bbox ?c = (-1, -1, 9, 9)"
    using prediction_after_operations [of "''1''" "-1" "-1" 9 9 "[]" 0 None False] by simp
  have u: "bbox ?t = (0, 0, 10, 10) \<and> velocity ?t = (1, 1, 1, 1) \<and> predicted_bbox ?t = (1, 1, 11, 11)"
    using c prediction_after_operations
      [where t = ?c and ?a1.0 = "-1" and ?a2.0 = "-1" and ?a3.0 = 9 and ?a4.0 = 9
         and ?b1.0 = 0 and ?b2.0 = 0 and ?b3.0 = 10 and ?b4.0 = 10 and fv = "[]" and d = 0]
    by simp
  have a: "age ?t = 0" by (simp add: update_def Let_def)
  have i: "predicted_bbox (increment_age ?t) = (1, 1, 11, 11)
           \<Longrightarrow> iou (increment_age ?t) (1, 1, 11, 11) = Inr 1"
    by (simp add: iou_def py_truediv_def Let_def)
  show ?thesis
    using u a i prediction_after_operations
      [where t = ?t and ?a1.0 = 0 and ?a2.0 = 0 and ?a3.0 = 10 and ?a4.0 = 10
         and ?v1.0 = 1 and ?v2.0 = 1 and ?v3.0 = 1 and ?v4.0 = 1]
    by simp
qed

text \<open>
  Claim C2: after \<^verbatim>\<open>update(bbox', feature', distance')\<close> the velocity is \<^verbatim>\<open>bbox'\<close> minus
  the previous box, each coordinate the difference of the two; the box is \<^verbatim>\<open>bbox'\<close>;
  the feature vector is \<^verbatim>\<open>feature'\<close> (the old one plays no part); the distance is
  \<^verbatim>\<open>distance'\<close>; the history is the old history with \<^verbatim>\<open>bbox'\<close> appended; and the
  age is 0. A new track has velocity zero.
\<close>

theorem update_overwrites:
  "velocity (update t (b1, b2, b3, b4) fv d)
     = (b1 - fst (bbox t), b2 - fst (snd (bbox t)),
        b3 - fst (snd (snd (bbox t))), b4 - snd (snd (snd (bbox t))))
   \<and> (bbox t = (a1, a2, a3, a4) \<longrightarrow>
        velocity (update t (b1, b2, b3, b4) fv d) = (b1 - a1, b2 - a2, b3 - a3, b4 - a4))
   \<and> bbox (update t b fv d) = b
   \<and> feature_vector (update t b fv d) = fv
   \<and> distance (update t b fv d) = d
   \<and> history (update t b fv d) = history t @ [b]
   \<and> age (update t b fv d) = 0
   \<and> velocity (Track_init tid b0 fv0 d0 lbl cand) = (0, 0, 0, 0)"
  by (cases "bbox t") (simp add: update_def Track_init_def zero_bbox_def Let_def)

text \<open>
  A track at \<^verbatim>\<open>[0,0,10,10]\<close> updated with the box \<^verbatim>\<open>[3,4,15,12]\<close> has velocity
  \<^verbatim>\<open>[3,4,5,2]\<close>, the new feature vector alone, and both boxes in its history.
\<close>

theorem update_overwrites_witness:
  "bbox (Track_init ''1'' (0, 0, 10, 10) [1, 2] (1 / 2) None True) = (0, 0, 10, 10)
   \<and> velocity (update (Track_init ''1'' (0, 0, 10, 10) [1, 2] (1 / 2) None True)
                 (3, 4, 15, 12) [5, 6] (1 / 10)) = (3, 4, 5, 2)
   \<and> feature_vector (update (Track_init ''1'' (0, 0, 10, 10) [1, 2] (1 / 2) None True)
                 (3, 4, 15, 12) [5, 6] (1 / 10)) = [5, 6]
   \<and> history (update (Track_init ''1'' (0, 0, 10, 10) [1, 2] (1 / 2) None True)
                 (3, 4, 15, 12) [5, 6] (1 / 10)) = [(0, 0, 10, 10), (3, 4, 15, 12)]"
proof -
  let ?c = "Track_init ''1'' (0, 0, 10, 10) [1, 2] (1 / 2) None True"
  have c: "bbox ?c = (0, 0, 10, 10)" and h: "history ?c = [(0, 0, 10, 10)]"
    by (simp_all add: Track_init_def)
  show ?thesis
    using c h update_overwrites
      [where t = ?c and ?a1.0 = 0 and ?a2.0 = 0 and ?a3.0 = 10 and ?a4.0 = 10
         and ?b1.0 = 3 and ?b2.0 = 4 and ?b3.0 = 15 and ?b4.0 = 12 and fv = "[5, 6]"
         and d = "1 / 10" and b = "(3, 4, 15, 12)"]
    by simp
qed

section \<open>The counters of a track\<close>

lemma apply_op_counters:
  "0 \<le> age t \<Longrightarrow> 0 \<le> age (apply_op t op)"
  "persistence t \<le> persistence (apply_op t op)"
  by (cases op; simp add: update_def change_track_id_def increment_persistence_def
        increment_age_def set_is_detected_def unset_is_detected_def Let_def)+

lemma run_ops_counters:
  "0 \<le> age t \<Longrightarrow> 0 \<le> age (run_ops t ops)"
  "persistence t \<le> persistence (run_ops t ops)"
proof -
  show "0 \<le> age t \<Longrightarrow> 0 \<le> age (run_ops t ops)"
    unfolding run_ops_def
    by (induction ops arbitrary: t) (simp_all add: apply_op_counters(1))
  show "persistence t \<le> persistence (run_ops t ops)"
    unfolding run_ops_def
  proof (induction ops arbitrary: t)
    case Nil
    show ?case by simp
  next
    case (Cons op ops)
    have "persistence t \<le> persistence (apply_op t op)" by (rule apply_op_counters(2))
    also have "\<dots> \<le> persistence (foldl apply_op (apply_op t op) ops)" by (rule Cons.IH)
    finally show ?case by simp
  qed
qed

text \<open>
  Claim C5: whatever methods are applied to a new track, in whatever order, its age and
  its persistence are never negative; no method lowers the persistence, neither in one
  step nor over a sequence; and \<^verbatim>\<open>increment_age\<close> leaves the persistence as it is.
\<close>

theorem counters_never_negative:
  "0 \<le> age (run_ops (Track_init tid b fv d lbl cand) ops)
   \<and> 0 \<le> persistence (run_ops (Track_init tid b fv d lbl cand) ops)
   \<and> persistence t \<le> persistence (apply_op t op)
   \<and> persistence t \<le> persistence (run_ops t ops)
   \<and> persistence (increment_age t) = persistence t"
proof -
  let ?t0 = "Track_init tid b fv d lbl cand"
  have a0: "0 \<le> age ?t0" and p0: "0 \<le> persistence ?t0"
    by (simp_all add: Track_init_def)
  have "0 \<le> age (run_ops ?t0 ops)" using a0 by (rule run_ops_counters(1))
  moreover have "0 \<le> persistence (run_ops ?t0 ops)"
    using p0 run_ops_counters(2) [of ?t0 ops] by linarith
  ultimately show ?thesis
    by (simp add: apply_op_counters(2) run_ops_counters(2) increment_age_fields(5))
qed

section \<open>Equality of tracks\<close>

text \<open>
  Claim C10: \<^verbatim>\<open>__eq__\<close> looks at \<^verbatim>\<open>track_id\<close>, \<^verbatim>\<open>bbox\<close> and \<^verbatim>\<open>feature_vector\<close> only. Two
  tracks that agree on the three compare equal whatever their other fields hold, two
  tracks that compare equal agree on the three, and a track never equals an object that
  is not a track.
\<close>

theorem Track_eq_three_fields:
  "(track_id t = track_id u \<and> bbox t = bbox u \<and> feature_vector t = feature_vector u
      \<longrightarrow> Track_eq t (TrackObject u))
   \<and> (Track_eq t (TrackObject u)
      \<longrightarrow> track_id t = track_id u \<and> bbox t = bbox u \<and> feature_vector t = feature_vector u)
   \<and> ((\<forall>v. other \<noteq> TrackObject v) \<longrightarrow> \<not> Track_eq t other)"
  by (cases other) simp_all

text \<open>
  The two tracks of the witness share id, box and feature vector and differ in age,
  persistence, distance, label and candidate flag.
\<close>

theorem Track_eq_three_fields_witness:
  "track_id (Track_init ''7'' (0, 0, 10, 10) [1, 2] 0 None True)
     = track_id (increment_persistence (increment_age
         (Track_init ''7'' (0, 0, 10, 10) [1, 2] (1 / 2) (Some ''person'') False)))
   \<and> age (Track_init ''7'' (0, 0, 10, 10) [1, 2] 0 None True)
     \<noteq> age (increment_persistence (increment_age
         (Track_init ''7'' (0, 0, 10, 10) [1, 2] (1 / 2) (Some ''person'') False)))
   \<and> persistence (Track_init ''7'' (0, 0, 10, 10) [1, 2] 0 None True)
     \<noteq> persistence (increment_persistence (increment_age
         (Track_init ''7'' (0, 0, 10, 10) [1, 2] (1 / 2) (Some ''person'') False)))
   \<and> is_candidate (Track_init ''7'' (0, 0, 10, 10) [1, 2] 0 None True)
     \<noteq> is_candidate (increment_persistence (increment_age
         (Track_init ''7'' (0, 0, 10, 10) [1, 2] (1 / 2) (Some ''person'') False)))
   \<and> Track_eq (Track_init ''7'' (0, 0, 10, 10) [1, 2] 0 None True)
       (TrackObject (increment_persistence (increment_age
         (Track_init ''7'' (0, 0, 10, 10) [1, 2] (1 / 2) (Some ''person'') False))))
   \<and> \<not> Track_eq (Track_init ''7'' (0, 0, 10, 10) [1, 2] 0 None True) (StrObject ''7'')"
  using Track_eq_three_fields
    [of "Track_init ''7'' (0, 0, 10, 10) [1, 2] 0 None True"
        "increment_persistence (increment_age
           (Track_init ''7'' (0, 0, 10, 10) [1, 2] (1 / 2) (Some ''person'') False))"
        "StrObject ''7''"]
  by (simp add: Track_init_def increment_persistence_def increment_age_def predict_def
        zero_bbox_def Let_def)

section \<open>Intersection over union\<close>

text \<open>\<^verbatim>\<open>iou\<close> in terms of the three areas, with the guard of the division.\<close>

lemma iou_unfold:
  "iou t b =
     (if bbox_area (predicted_bbox t) + bbox_area b - inter_area (predicted_bbox t) b > 0
      then py_truediv (inter_area (predicted_bbox t) b)
             (bbox_area (predicted_bbox t) + bbox_area b - inter_area (predicted_bbox t) b)
      else Inr 0)"
  by (cases "predicted_bbox t"; cases b)
     (simp add: iou_def bbox_area_def inter_area_def Let_def)

lemma iou_no_inter: "inter_area (predicted_bbox t) b = 0 \<Longrightarrow> iou t b = Inr 0"
  by (simp add: iou_unfold py_truediv_def)

lemma inter_area_self:
  assumes "bbox_valid b"
  shows "inter_area b b = bbox_area b"
  using assms by (cases b) (simp add: inter_area_def bbox_area_def bbox_valid_def)

lemma inter_area_disjoint:
  assumes "bbox_disjoint a b"
  shows "inter_area a b = 0"
  using assms by (cases a; cases b) (auto simp: inter_area_def bbox_disjoint_def max_def min_def)

lemma nonpos_area_side:
  assumes "bbox_area a \<le> 0"
  shows "(case a of (x1, y1, x2, y2) \<Rightarrow> x2 \<le> x1 \<or> y2 \<le> y1)"
proof (cases a)
  case (fields x1 y1 x2 y2)
  have "\<not> (0 < x2 - x1 \<and> 0 < y2 - y1)"
  proof
    assume "0 < x2 - x1 \<and> 0 < y2 - y1"
    then have "0 < (x2 - x1) * (y2 - y1)" by simp
    with assms fields show False by (simp add: bbox_area_def)
  qed
  with fields show ?thesis by auto
qed

lemma inter_area_nonpos_left:
  assumes "bbox_area a \<le> 0"
  shows "inter_area a b = 0"
  using nonpos_area_side [OF assms]
  by (cases a; cases b) (auto simp: inter_area_def max_def min_def)

lemma inter_area_nonpos_right:
  assumes "bbox_area b \<le> 0"
  shows "inter_area a b = 0"
  using nonpos_area_side [OF assms]
  by (cases a; cases b) (auto simp: inter_area_def max_def min_def)

lemma iou_never_raises: "iou t b \<noteq> Inl e"
  by (simp add: iou_unfold py_truediv_def)

text \<open>
  Claim C3: for a box \<open>b\<close> with ordered corners and positive area, \<^verbatim>\<open>iou\<close> of a track
  predicted at \<open>b\<close> with \<open>b\<close> is 1; for two boxes that do not overlap it is 0; when
  either box has an area that is zero or negative it is 0; and the division never
  raises \<^verbatim>\<open>ZeroDivisionError\<close>, whatever the boxes.
\<close>

theorem iou_properties:
  "(bbox_valid b \<and> 0 < bbox_area b \<longrightarrow> iou (t\<lparr>predicted_bbox := b\<rparr>) b = Inr 1)
   \<and> (bbox_disjoint a b \<longrightarrow> iou (t\<lparr>predicted_bbox := a\<rparr>) b = Inr 0)
   \<and> (bbox_area a \<le> 0 \<or> bbox_area b \<le> 0 \<longrightarrow> iou (t\<lparr>predicted_bbox := a\<rparr>) b = Inr 0)
   \<and> iou t b \<noteq> Inl ZeroDivisionError"
proof (intro conjI impI)
  assume "bbox_valid b \<and> 0 < bbox_area b"
  then show "iou (t\<lparr>predicted_bbox := b\<rparr>) b = Inr 1"
    by (simp add: iou_unfold inter_area_self py_truediv_def)
next
  assume "bbox_disjoint a b"
  then show "iou (t\<lparr>predicted_bbox := a\<rparr>) b = Inr 0"
    by (simp add: iou_no_inter inter_area_disjoint)
next
  assume "bbox_area a \<le> 0 \<or> bbox_area b \<le> 0"
  then have "inter_area a b = 0"
    using inter_area_nonpos_left inter_area_nonpos_right by blast
  then show "iou (t\<lparr>predicted_bbox := a\<rparr>) b = Inr 0"
    by (simp add: iou_no_inter)
next
  show "iou t b \<noteq> Inl ZeroDivisionError" by (rule iou_never_raises)
qed

theorem iou_properties_witness:
  "bbox_valid (0, 0, 10, 10) \<and> 0 < bbox_area (0, 0, 10, 10)
   \<and> iou (Track_init ''1'' (0, 0, 10, 10) [] 0 None False) (0, 0, 10, 10) = Inr 1
   \<and> bbox_disjoint (0, 0, 10, 10) (20, 20, 30, 30)
   \<and> iou (Track_init ''1'' (0, 0, 10, 10) [] 0 None False) (20, 20, 30, 30) = Inr 0
   \<and> bbox_area (5, 5, 5, 9) \<le> 0
   \<and> iou (Track_init ''1'' (0, 0, 10, 10) [] 0 None False) (5, 5, 5, 9) = Inr 0"
proof -
  let ?t = "Track_init ''1'' (0, 0, 10, 10) [] 0 None False"
  have v: "bbox_valid (0, 0, 10, 10) \<and> 0 < bbox_area (0, 0, 10, 10)"
    by (simp add: bbox_valid_def bbox_area_def)
  have d: "bbox_disjoint (0, 0, 10, 10) (20, 20, 30, 30)"
    by (simp add: bbox_disjoint_def)
  have z: "bbox_area (0, 0, 10, 10) \<le> 0 \<or> bbox_area (5, 5, 5, 9) \<le> 0"
    by (simp add: bbox_area_def)
  have p: "?t\<lparr>predicted_bbox := (0, 0, 10, 10)\<rparr> = ?t"
    by (simp add: Track_init_def)
  from v d z p
    iou_properties [of "(0, 0, 10, 10)" ?t "(0, 0, 10, 10)"]
    iou_properties [of "(20, 20, 30, 30)" ?t "(0, 0, 10, 10)"]
    iou_properties [of "(5, 5, 5, 9)" ?t "(0, 0, 10, 10)"]
  show ?thesis by (simp add: bbox_area_def)
qed

text \<open>
  The ordered corners matter: four numbers with both corners swapped have a positive
  product \<open>(x2 - x1) * (y2 - y1)\<close> and an empty intersection with themselves.
\<close>

lemma iou_swapped_corners:
  "0 < bbox_area (40, 40, 34, 34)
   \<and> iou (t\<lparr>predicted_bbox := (40, 40, 34, 34)\<rparr>) (40, 40, 34, 34) = Inr 0"
  by (simp add: iou_unfold bbox_area_def inter_area_def py_truediv_def)

section \<open>The detection a track reports\<close>











section \<open>The persistence threshold of a track\<close>

lemma apply_op_min_persistence: "min_persistence (apply_op t op) = min_persistence t"
  by (cases op) (simp_all add: update_def change_track_id_def increment_persistence_def
        increment_age_def set_is_detected_def unset_is_detected_def Let_def)

lemma run_ops_min_persistence: "min_persistence (run_ops t ops) = min_persistence t"
  unfolding run_ops_def
  by (induction ops arbitrary: t) (simp_all add: apply_op_min_persistence)

text \<open>
  Claim C4 says that a track's \<^verbatim>\<open>min_persistence\<close> is the configured
  \<^verbatim>\<open>min_track_persistence\<close>, default 4. \<^verbatim>\<open>Track.__init__\<close> has no parameter for the
  threshold and assigns 3: a new track differs from the declared default.
\<close>

theorem min_persistence_not_configured_counterexample:
  "Some (min_persistence (Track_init ''1'' (0, 0, 10, 10) [] 0 None True))
     \<noteq> default_value min_track_persistence_attribute"
  by (simp add: Track_init_def min_track_persistence_attribute_def IntAttribute_def)

text \<open>
  Claim C4 as amended: every track is constructed with \<^verbatim>\<open>min_persistence = 3\<close>, whatever
  the arguments of the constructor, and no method of the track changes it, so it is 3
  after any sequence of methods; the default that the configuration declares for
  \<^verbatim>\<open>min_track_persistence\<close> is 4, its minimum 0.
\<close>

theorem min_persistence_fixed_at_three:
  "min_persistence (Track_init tid b fv d lbl cand) = 3
   \<and> min_persistence (apply_op t op) = min_persistence t
   \<and> min_persistence (run_ops (Track_init tid b fv d lbl cand) ops) = 3
   \<and> default_value min_track_persistence_attribute = Some 4
   \<and> min_value min_track_persistence_attribute = Some 0"
  by (simp add: run_ops_min_persistence apply_op_min_persistence Track_init_def
        min_track_persistence_attribute_def IntAttribute_def)

section \<open>Validation of the feature distance metric\<close>

lemma FloatAttribute_validate_error:
  "FloatAttribute_validate a config = Inl e \<Longrightarrow> e = ConfigurationError"
  by (auto simp: FloatAttribute_validate_def split: option.splits attr_value.splits if_splits)

lemma IntAttribute_validate_error:
  "IntAttribute_validate a config = Inl e \<Longrightarrow> e = ConfigurationError"
  by (auto simp: IntAttribute_validate_def split: option.splits attr_value.splits if_splits)

lemma and_then_error:
  assumes "\<And>e. r = Inl e \<Longrightarrow> e = ConfigurationError"
    and "\<And>v. r = Inr v \<Longrightarrow> f v = Inl ConfigurationError"
  shows "and_then r f = Inl ConfigurationError"
  using assms by (cases r) (simp_all add: and_then_def)

lemma feature_distance_metric_rejected:
  assumes "map_of config ''feature_distance_metric'' = Some (StringValue m)"
    and "m \<noteq> ''cosine''" and "m \<noteq> ''euclidean''"
  shows "StringAttribute_validate feature_distance_metric_attribute config = Inl ConfigurationError"
  using assms
  by (simp add: StringAttribute_validate_def feature_distance_metric_attribute_def
        StringAttribute_def)

text \<open>
  Whatever the other fields hold, the constructor does not get past a metric outside the
  allowlist: the five validations before it either raise or return.
\<close>

lemma TrackingConfig_init_rejects:
  assumes "map_of config ''feature_distance_metric'' = Some (StringValue m)"
    and "m \<noteq> ''cosine''" and "m \<noteq> ''euclidean''"
  shows "TrackingConfig_init config = Inl ConfigurationError"
  unfolding TrackingConfig_init_def
  apply (rule and_then_error, erule FloatAttribute_validate_error)
  apply (rule and_then_error, erule IntAttribute_validate_error)
  apply (rule and_then_error, erule FloatAttribute_validate_error)
  apply (rule and_then_error, erule IntAttribute_validate_error)
  apply (rule and_then_error, erule FloatAttribute_validate_error)
  apply (simp add: feature_distance_metric_rejected [OF assms] and_then_def)
  done

lemmas validate_defs =
  TrackingConfig_init_def and_then_def FloatAttribute_validate_def
  IntAttribute_validate_def StringAttribute_validate_def BoolAttribute_validate_def
  DictAttribute_validate_def FloatAttribute_def IntAttribute_def StringAttribute_def
  BoolAttribute_def min_track_persistence_attribute_def
  feature_distance_metric_attribute_def crop_region_attribute_def

lemma TrackingConfig_init_single:
  "TrackingConfig_init [(''feature_distance_metric'', StringValue m)] =
     (if m = ''cosine'' \<or> m = ''euclidean''
      then Inr \<lparr> re_id_threshold = Some 0.3,
                 min_track_persistence = Some 4,
                 lambda_value = Some 0.95,
                 max_age_track = Some 1000,
                 min_distance_threshold = Some 0.3,
                 feature_distance_metric = Some m,
                 max_frequency = Some 10,
                 cooldown_period = Some 5,
                 start_fresh = Some False,
                 save_to_db = Some True,
                 private_start_background_loop = Some True,
                 path_to_known_persons = None,
                 crop_region = None \<rparr>
      else Inl ConfigurationError)"
  by (simp add: validate_defs)

text \<open>
  Claim C8 says that \<^verbatim>\<open>feature_distance_metric\<close> may be cosine, euclidean or manhattan.
  The allowlist of the field holds cosine and euclidean only: a configuration that sets
  nothing but \<^verbatim>\<open>feature_distance_metric = "manhattan"\<close> is refused.
\<close>

theorem manhattan_rejected_counterexample:
  "TrackingConfig_init [(''feature_distance_metric'', StringValue ''manhattan'')]
     = Inl ConfigurationError"
  by (simp add: TrackingConfig_init_single)

text \<open>
  Claim C8 as amended: \<^verbatim>\<open>feature_distance_metric\<close> is selectable between cosine and
  euclidean. A configuration that sets the field to one of the two and nothing else is
  accepted and holds the chosen metric; a configuration that sets it to any other string,
  manhattan included, raises a configuration error whatever its other fields; a
  configuration that leaves the field out is accepted with cosine.
\<close>

theorem feature_distance_metric_allowlist:
  "(m = ''cosine'' \<or> m = ''euclidean'' \<longrightarrow>
      (\<exists>c. TrackingConfig_init [(''feature_distance_metric'', StringValue m)] = Inr c
           \<and> feature_distance_metric c = Some m))
   \<and> (m \<noteq> ''cosine'' \<and> m \<noteq> ''euclidean'' \<and>
        map_of config ''feature_distance_metric'' = Some (StringValue m)
      \<longrightarrow> TrackingConfig_init config = Inl ConfigurationError)
   \<and> (\<exists>c. TrackingConfig_init [] = Inr c \<and> feature_distance_metric c = Some ''cosine'')"
proof (intro conjI impI)
  assume "m = ''cosine'' \<or> m = ''euclidean''"
  then show "\<exists>c. TrackingConfig_init [(''feature_distance_metric'', StringValue m)] = Inr c
           \<and> feature_distance_metric c = Some m"
    by (simp add: TrackingConfig_init_single)
next
  assume "m \<noteq> ''cosine'' \<and> m \<noteq> ''euclidean'' \<and>
        map_of config ''feature_distance_metric'' = Some (StringValue m)"
  then show "TrackingConfig_init config = Inl ConfigurationError"
    by (simp add: TrackingConfig_init_rejects)
next
  show "\<exists>c. TrackingConfig_init [] = Inr c \<and> feature_distance_metric c = Some ''cosine''"
    by (simp add: validate_defs)
qed

theorem feature_distance_metric_allowlist_witness:
  "(\<exists>c. TrackingConfig_init [(''feature_distance_metric'', StringValue ''euclidean'')] = Inr c
        \<and> feature_distance_metric c = Some ''euclidean'')
   \<and> map_of [(''lambda_value'', NumberValue (1 / 2)),
              (''feature_distance_metric'', StringValue ''manhattan'')]
        ''feature_distance_metric'' = Some (StringValue ''manhattan'')
   \<and> TrackingConfig_init [(''lambda_value'', NumberValue (1 / 2)),
                           (''feature_distance_metric'', StringValue ''manhattan'')]
       = Inl ConfigurationError"
  using feature_distance_metric_allowlist [of "''euclidean''"]
    feature_distance_metric_allowlist
      [of "''manhattan''" "[(''lambda_value'', NumberValue (1 / 2)),
                            (''feature_distance_metric'', StringValue ''manhattan'')]"]
  by simp

section \<open>Requests the service does not support\<close>

text \<open>
  Claim C9 says that the four unsupported requests raise a not-implemented error.
  \<^verbatim>\<open>get_object_point_clouds\<close> does. \<^verbatim>\<open>get_detections\<close>, \<^verbatim>\<open>get_classifications\<close> and
  \<^verbatim>\<open>get_classifications_from_camera\<close> return the exception class as an ordinary value
  and raise nothing.
\<close>

theorem unsupported_requests_raise_or_return:
  "get_object_point_clouds camera_name = Inl NotImplementedError
   \<and> get_detections img = Inr (ExceptionClass NotImplementedError)
   \<and> get_classifications img n = Inr (ExceptionClass NotImplementedError)
   \<and> get_classifications_from_camera camera_name n = Inr (ExceptionClass NotImplementedError)
   \<and> get_classifications_from_camera ''camera'' 1 \<noteq> Inl NotImplementedError"
  by (simp add: get_object_point_clouds_def get_detections_def get_classifications_def
        get_classifications_from_camera_def)

end
